theory Spec2Isabelle
  imports Complex_Main
begin

section \<open>The response schema (lib/api.ts)\<close>

text \<open>
  A JavaScript \<open>number\<close> that arrives in a JSON document is a finite double, hence a
  rational; counts are whole numbers. An optional field (\<open>?:\<close>, also a JSON
  \<open>null\<close>) is an \<open>option\<close>. The fields \<open>min\<close>, \<open>max\<close> and \<open>type\<close> are written
  \<open>min_num\<close>, \<open>max_num\<close> and \<open>type_issue\<close>.
\<close>

record BasicStats =
  row_count :: nat
  column_count :: nat
  memory_usage_mb :: rat
  duplicate_rows :: nat
  total_nulls :: nat
  null_percentage :: rat

record ColumnAnalysis =
  name :: string
  dtype :: string
  null_count :: nat
  null_percentage :: rat
  unique_count :: nat
  unique_percentage :: rat
  min_num :: "rat option"
  max_num :: "rat option"
  mean :: "rat option"
  median :: "rat option"
  std :: "rat option"
  avg_length :: "rat option"
  max_length :: "rat option"
  min_length :: "rat option"
  sample_values :: "string list option"
  min_date :: "string option"
  max_date :: "string option"

record QualityIssue =
  severity :: string
  type_issue :: string
  column :: "string option"
  description :: string
  recommendation :: string

record LLMInsights =
  insights :: string
  model_used :: "string option"
  tokens_used :: "nat option"

record ProfileResponse =
  file_name :: string
  timestamp :: string
  basic_stats :: BasicStats
  columns :: "ColumnAnalysis list"
  quality_issues :: "QualityIssue list"
  llm_insights :: "LLMInsights option"
  upload_id :: "string option"
  file_size_mb :: "rat option"
  success :: bool

section \<open>Numbers as text\<close>

text \<open>
  The built-ins whose output depends on the host (its default locale, its Unicode
  tables) or on the rounding of doubles are parameters of the model:
  \<open>Number.prototype.toLocaleString()\<close>, \<open>String.prototype.toUpperCase()\<close>, and
  \<open>Number::toString\<close> for magnitudes of \<open>10^21\<close> and more, where JavaScript prints the
  shortest digits that read back as the same double, in exponent form.
\<close>

record host =
  toLocaleString :: "nat \<Rightarrow> string"
  toUpperCase :: "string \<Rightarrow> string"
  toStringLarge :: "rat \<Rightarrow> string"

definition digit :: "nat \<Rightarrow> char" where
  "digit d = ''0123456789'' ! d"

text \<open>The decimal digits of a whole number, most significant first.\<close>

fun dec :: "nat \<Rightarrow> string" where
  "dec n = (if n < 10 then [digit n] else dec (n div 10) @ [digit (n mod 10)])"

declare dec.simps [simp del]

text \<open>\<open>Number::toString\<close> of a whole number: plain digits below \<open>10^21\<close>.\<close>

definition toString :: "host \<Rightarrow> nat \<Rightarrow> string" where
  "toString h n = (if n < 10 ^ 21 then dec n else toStringLarge h (of_nat n))"

text \<open>
  \<open>Number.prototype.toFixed(f)\<close>, step by step as ECMA-262 has it: the sign is split
  off; at \<open>10^21\<close> and above the result is \<open>Number::toString\<close>; otherwise \<open>n\<close> is the
  integer for which \<open>n / 10^f - x\<close> is closest to zero, the larger one on a tie; its
  digits are padded with zeros to \<open>f + 1\<close> characters and the point is put before the
  last \<open>f\<close> of them.
\<close>

definition nearest :: "nat \<Rightarrow> rat \<Rightarrow> nat" where
  "nearest f x = nat \<lfloor>x * 10 ^ f + 1 / 2\<rfloor>"

definition toFixed :: "host \<Rightarrow> nat \<Rightarrow> rat \<Rightarrow> string" where
  "toFixed h f x =
     (let s = (if x < 0 then ''-'' else []);
          y = \<bar>x\<bar>
      in if 10 ^ 21 \<le> y then s @ toStringLarge h y
         else let m = dec (nearest f y)
              in if f = 0 then s @ m
                 else let m1 = (if length m \<le> f
                                then replicate (f + 1 - length m) (CHR ''0'') @ m else m);
                          k = length m1
                      in s @ take (k - f) m1 @ ''.'' @ drop (k - f) m1)"

text \<open>
  A host for the examples: the \<open>en-US\<close> locale groups digits in threes with commas,
  upper-casing is the ASCII one, and the exponent form is the one of \<open>10^21\<close> itself
  (no example reaches it).
\<close>

fun groupThousands :: "nat \<Rightarrow> string" where
  "groupThousands n =
     (if n < 1000 then dec n
      else groupThousands (n div 1000) @ '','' @
           replicate (3 - length (dec (n mod 1000))) (CHR ''0'') @ dec (n mod 1000))"

declare groupThousands.simps [simp del]

definition upperASCII :: "char \<Rightarrow> char" where
  "upperASCII c =
     (if 97 \<le> (of_char c :: nat) \<and> (of_char c :: nat) \<le> 122
      then char_of ((of_char c :: nat) - 32) else c)"

definition en_US :: host where
  "en_US = \<lparr>toLocaleString = groupThousands, toUpperCase = map upperASCII,
     toStringLarge = (\<lambda>x. ''1e+21'')\<rparr>"

section \<open>The Upload Widget (FileUpload.tsx)\<close>

text \<open>
  A browser \<open>File\<close> handle, as far as the component reads it: its name and its size in
  bytes (a whole number; the field \<open>size\<close> is written \<open>size_file\<close>).
\<close>

record File =
  name :: string
  size_file :: nat

text \<open>
  The three \<open>useState\<close> cells of \<open>FileUpload\<close>. \<open>selectedFile\<close> is \<open>File | null\<close>.
\<close>

record widget =
  selectedFile :: "File option"
  useLLM :: bool
  isDragging :: bool

definition initial_widget :: widget where
  "initial_widget = \<lparr>selectedFile = None, useLLM = True, isDragging = False\<rparr>"

definition handleDragOver :: "widget \<Rightarrow> widget" where
  "handleDragOver w = w\<lparr>isDragging := True\<rparr>"

definition handleDragLeave :: "widget \<Rightarrow> widget" where
  "handleDragLeave w = w\<lparr>isDragging := False\<rparr>"

text \<open>\<open>e.dataTransfer.files\<close> is a \<open>FileList\<close>; \<open>files[0]\<close> is read only under the length test.\<close>

definition handleDrop :: "File list \<Rightarrow> widget \<Rightarrow> widget" where
  "handleDrop files w =
     (let w1 = w\<lparr>isDragging := False\<rparr>
      in if length files > 0 then w1\<lparr>selectedFile := Some (files ! 0)\<rparr> else w1)"

text \<open>\<open>e.target.files\<close> is \<open>FileList | null\<close>.\<close>

definition handleFileSelect :: "File list option \<Rightarrow> widget \<Rightarrow> widget" where
  "handleFileSelect files w =
     (case files of
        None \<Rightarrow> w
      | Some fs \<Rightarrow> if length fs > 0 then w\<lparr>selectedFile := Some (fs ! 0)\<rparr> else w)"

text \<open>
  \<open>handleUpload\<close> returns the calls it makes to the \<open>onUpload\<close> prop, in order: one call
  with the selected file and the toggle, or none.
\<close>

definition handleUpload :: "widget \<Rightarrow> (File \<times> bool) list" where
  "handleUpload w =
     (case selectedFile w of Some f \<Rightarrow> [(f, useLLM w)] | None \<Rightarrow> [])"

text \<open>
  \<open>formatFileSize\<close> is called with \<open>selectedFile.size\<close>, a whole number, so both
  divisions are exact. \<open>bytes + ' B'\<close> is \<open>Number::toString\<close> of a whole number below
  1024, that is, its digits.
\<close>

definition formatFileSize :: "host \<Rightarrow> nat \<Rightarrow> string" where
  "formatFileSize h bytes =
     (if bytes < 1024 then dec bytes @ '' B''
      else if bytes < 1024 * 1024 then toFixed h 1 (of_nat bytes / 1024) @ '' KB''
      else toFixed h 1 (of_nat bytes / (1024 * 1024)) @ '' MB'')"

text \<open>
  The buttons of one render, each with its \<open>disabled\<close> attribute. Without a selected file
  the component renders "Select File"; with one it renders "Analyze File" (or the busy
  indicator) and "Cancel". All three carry \<open>disabled={isLoading}\<close>.
\<close>

datatype button = SelectFile | Analyze | Cancel

definition buttons :: "bool \<Rightarrow> widget \<Rightarrow> (button \<times> bool) list" where
  "buttons isLoading w =
     (case selectedFile w of
        None \<Rightarrow> [(SelectFile, isLoading)]
      | Some f \<Rightarrow> [(Analyze, isLoading), (Cancel, isLoading)])"

text \<open>A button can be actuated when it is rendered and its \<open>disabled\<close> attribute is false.\<close>

definition enabled :: "button \<Rightarrow> bool \<Rightarrow> widget \<Rightarrow> bool" where
  "enabled b isLoading w = ((b, False) \<in> set (buttons isLoading w))"

text \<open>
  The events the widget listens to. A click reaches its \<open>onClick\<close> handler only when the
  button is rendered and not disabled (a disabled button dispatches no click). The
  "Select File" click only opens the browser's picker; the picker's answer arrives as
  \<open>Change\<close> on the hidden input. The checkbox is rendered, like the two buttons beside
  it, only while a file is selected.
\<close>

datatype event =
    DragOver
  | DragLeave
  | Drop "File list"
  | Change "File list option"
  | Toggle bool
  | Click button

fun onClick :: "button \<Rightarrow> widget \<Rightarrow> widget \<times> (File \<times> bool) list" where
  "onClick SelectFile w = (w, [])"
| "onClick Analyze w = (w, handleUpload w)"
| "onClick Cancel w = (w\<lparr>selectedFile := None\<rparr>, [])"

fun step :: "bool \<Rightarrow> event \<Rightarrow> widget \<Rightarrow> widget \<times> (File \<times> bool) list" where
  "step isLoading DragOver w = (handleDragOver w, [])"
| "step isLoading DragLeave w = (handleDragLeave w, [])"
| "step isLoading (Drop files) w = (handleDrop files w, [])"
| "step isLoading (Change files) w = (handleFileSelect files w, [])"
| "step isLoading (Toggle checked) w =
     (case selectedFile w of Some f \<Rightarrow> (w\<lparr>useLLM := checked\<rparr>, []) | None \<Rightarrow> (w, []))"
| "step isLoading (Click b) w = (if enabled b isLoading w then onClick b w else (w, []))"

section \<open>The Results Widget (ProfileResults.tsx)\<close>

text \<open>
  What a component renders: text, elements with their tag (or component name), their
  \<open>className\<close> and their children, and \<open>Nothing\<close> for a child that is \<open>false\<close>, \<open>null\<close>
  or \<open>undefined\<close>, which React leaves out of the page.
\<close>

datatype node = Text string | El string string "node list" | Nothing

text \<open>The text leaves of a tree in document order, and their concatenation.\<close>

fun texts :: "node \<Rightarrow> string list" where
  "texts (Text s) = [s]"
| "texts Nothing = []"
| "texts (El t c kids) = concat (map texts kids)"

definition textContent :: "node \<Rightarrow> string" where
  "textContent n = concat (texts n)"

text \<open>The tags of the elements of a tree, parents before children.\<close>

fun tags :: "node \<Rightarrow> string list" where
  "tags (Text s) = []"
| "tags Nothing = []"
| "tags (El t c kids) = t # concat (map tags kids)"

text \<open>Whether a tree has an \<open>h2\<close> element whose only child is the given text.\<close>

fun has_heading :: "string \<Rightarrow> node \<Rightarrow> bool" where
  "has_heading t (Text s) = False"
| "has_heading t Nothing = False"
| "has_heading t (El tg c kids) =
     ((tg = ''h2'' \<and> kids = [Text t]) \<or> list_ex (has_heading t) kids)"

text \<open>
  The literals of the source outside ASCII, as their UTF-8 bytes: the Greek letter mu,
  the bullet, the light-bulb and the robot-face emoji.
\<close>

definition mu :: string where
  "mu = [CHR 0xCE, CHR 0xBC]"

definition bullet :: string where
  "bullet = [CHR 0xE2, CHR 0x80, CHR 0xA2]"

definition bulb :: string where
  "bulb = [CHR 0xF0, CHR 0x9F, CHR 0x92, CHR 0xA1]"

definition robot :: string where
  "robot = [CHR 0xF0, CHR 0x9F, CHR 0xA4, CHR 0x96]"

definition getSeverityColor :: "string \<Rightarrow> string" where
  "getSeverityColor sev =
     (if sev = ''high'' then ''bg-red-100 text-red-800 border-red-200''
      else if sev = ''medium'' then ''bg-yellow-100 text-yellow-800 border-yellow-200''
      else if sev = ''low'' then ''bg-blue-100 text-blue-800 border-blue-200''
      else ''bg-gray-100 text-gray-800 border-gray-200'')"

text \<open>The header: the file name and the reset button.\<close>

definition Header :: "string \<Rightarrow> node" where
  "Header fname =
     El ''div'' ''flex justify-between items-center''
       [El ''div'' []
          [El ''h1'' ''text-3xl font-bold text-gray-900 mb-2'' [Text ''Analysis Results''],
           El ''p'' ''text-gray-600''
             [Text ''File: '', El ''span'' ''font-medium'' [Text fname]]],
        El ''button'' ''btn-secondary flex items-center space-x-2''
          [El ''RotateCcw'' ''h-4 w-4'' [], El ''span'' [] [Text ''Upload New File'']]]"

text \<open>The three summary cards share their markup: an icon, a label and a value.\<close>

definition statCard :: "string \<Rightarrow> string \<Rightarrow> string \<Rightarrow> node list \<Rightarrow> node" where
  "statCard icon iconClass label val =
     El ''div'' ''card''
       [El ''div'' ''flex items-center space-x-3''
          [El icon iconClass [],
           El ''div'' []
             [El ''p'' ''text-sm text-gray-600'' [Text label],
              El ''p'' ''text-2xl font-bold text-gray-900'' val]]]"

definition BasicStatsCards :: "host \<Rightarrow> BasicStats \<Rightarrow> node" where
  "BasicStatsCards h bs =
     El ''div'' ''grid grid-cols-1 md:grid-cols-3 gap-6''
       [statCard ''Database'' ''h-8 w-8 text-primary-600'' ''Total Rows''
          [Text (toLocaleString h (row_count bs))],
        statCard ''FileText'' ''h-8 w-8 text-primary-600'' ''Total Columns''
          [Text (toString h (column_count bs))],
        statCard ''AlertTriangle'' ''h-8 w-8 text-yellow-600'' ''Null Values''
          [Text (toFixed h 1 (BasicStats.null_percentage bs)), Text ''%'']]"

definition issueCard :: "host \<Rightarrow> QualityIssue \<Rightarrow> node" where
  "issueCard h issue =
     El ''div'' (''p-4 rounded-lg border '' @ getSeverityColor (severity issue))
       [El ''div'' ''flex justify-between items-start''
          [El ''div'' ''flex-1''
             [El ''p'' ''font-medium mb-1'' [Text (description issue)],
              El ''p'' ''text-sm opacity-80'' [Text (bulb @ '' ''), Text (recommendation issue)]],
           El ''span'' ''ml-4 px-2 py-1 text-xs font-semibold rounded-full bg-white bg-opacity-50''
             [Text (toUpperCase h (severity issue))]]]"

text \<open>\<open>quality_issues.length > 0 && (...)\<close> is \<open>false\<close> for an empty list.\<close>

definition QualityIssuesSection :: "host \<Rightarrow> QualityIssue list \<Rightarrow> node" where
  "QualityIssuesSection h issues =
     (if length issues > 0 then
        El ''div'' ''card''
          [El ''h2'' ''text-xl font-bold text-gray-900 mb-4 flex items-center space-x-2''
             [El ''AlertTriangle'' ''h-6 w-6 text-yellow-600'' [],
              El ''span'' []
                [Text ''Quality Issues ('', Text (toString h (length issues)), Text '')'']],
           El ''div'' ''space-y-3'' (map (issueCard h) issues)]
      else Nothing)"

text \<open>
  The stats cell of a column row: two conditional spans, one after the other, each
  \<open>false\<close> when its field is \<open>undefined\<close> or \<open>null\<close>.
\<close>

definition statsCell :: "host \<Rightarrow> ColumnAnalysis \<Rightarrow> node" where
  "statsCell h col =
     El ''td'' ''px-4 py-3 text-sm text-gray-600''
       [(case mean col of
           Some m \<Rightarrow> El ''span'' [] [Text (mu @ '': ''), Text (toFixed h 2 m)]
         | None \<Rightarrow> Nothing),
        (case avg_length col of
           Some a \<Rightarrow> El ''span'' [] [Text ''avg len: '', Text (toFixed h 0 a)]
         | None \<Rightarrow> Nothing)]"

definition columnRow :: "host \<Rightarrow> ColumnAnalysis \<Rightarrow> node" where
  "columnRow h col =
     El ''tr'' ''hover:bg-gray-50''
       [El ''td'' ''px-4 py-3 text-sm font-medium text-gray-900'' [Text (ColumnAnalysis.name col)],
        El ''td'' ''px-4 py-3 text-sm text-gray-600''
          [El ''span'' ''px-2 py-1 bg-blue-100 text-blue-800 rounded text-xs'' [Text (dtype col)]],
        El ''td'' ''px-4 py-3 text-sm text-gray-600''
          [Text (toLocaleString h (unique_count col)), Text '' ('',
           Text (toFixed h 1 (unique_percentage col)), Text ''%)''],
        El ''td'' ''px-4 py-3 text-sm text-gray-600''
          [Text (toLocaleString h (null_count col)), Text '' ('',
           Text (toFixed h 1 (null_percentage col)), Text ''%)''],
        statsCell h col]"

definition columnHeader :: "string \<Rightarrow> node" where
  "columnHeader label =
     El ''th'' ''px-4 py-3 text-left text-xs font-medium text-gray-500 uppercase'' [Text label]"

definition ColumnAnalysisSection :: "host \<Rightarrow> ColumnAnalysis list \<Rightarrow> node" where
  "ColumnAnalysisSection h cols =
     El ''div'' ''card''
       [El ''h2'' ''text-xl font-bold text-gray-900 mb-4''
          [Text ''Column Analysis ('', Text (toString h (length cols)), Text '')''],
        El ''div'' ''overflow-x-auto''
          [El ''table'' ''min-w-full divide-y divide-gray-200''
             [El ''thead'' []
                [El ''tr'' ''bg-gray-50''
                   (map columnHeader [''Column'', ''Type'', ''Unique'', ''Nulls'', ''Stats''])],
              El ''tbody'' ''bg-white divide-y divide-gray-200'' (map (columnRow h) cols)]]]"

text \<open>
  The attribution line: \<open>llm_insights.model_used && (<p>...</p>)\<close>. An absent model name
  gives \<open>undefined\<close>, an empty one gives the empty string itself; any other gives the
  paragraph, whose fourth child \<open>tokens_used?.toLocaleString()\<close> is \<open>undefined\<close> when the
  count is absent.
\<close>

definition attribution :: "host \<Rightarrow> LLMInsights \<Rightarrow> node" where
  "attribution h i =
     (case model_used i of
        None \<Rightarrow> Nothing
      | Some m \<Rightarrow>
          if m = [] then Text []
          else El ''p'' ''text-sm text-gray-600''
                 [Text ''Powered by '', Text m, Text ('' '' @ bullet @ '' ''),
                  (case tokens_used i of None \<Rightarrow> Nothing | Some t \<Rightarrow> Text (toLocaleString h t)),
                  Text '' tokens''])"

definition LLMInsightsSection :: "host \<Rightarrow> LLMInsights \<Rightarrow> node" where
  "LLMInsightsSection h i =
     El ''div'' ''card bg-gradient-to-br from-primary-50 to-indigo-50 border-primary-200''
       [El ''div'' ''flex items-start space-x-3 mb-4''
          [El ''div'' ''flex-shrink-0 bg-primary-600 text-white rounded-lg p-2''
             [El ''span'' ''text-2xl'' [Text robot]],
           El ''div'' ''flex-1''
             [El ''h2'' ''text-xl font-bold text-gray-900 mb-1'' [Text ''AI Insights''],
              attribution h i]],
        El ''div'' ''prose prose-sm max-w-none''
          [El ''div'' ''whitespace-pre-wrap text-gray-800'' [Text (insights i)]]]"

definition SuccessMessage :: node where
  "SuccessMessage =
     El ''div'' ''card bg-green-50 border-green-200''
       [El ''div'' ''flex items-center space-x-3''
          [El ''CheckCircle'' ''h-6 w-6 text-green-600'' [],
           El ''div'' []
             [El ''p'' ''font-medium text-green-900'' [Text ''Analysis Complete''],
              El ''p'' ''text-sm text-green-700''
                [Text ''Your data has been successfully profiled with AI-powered insights'']]]]"

text \<open>
  The component: six children in a fixed order, the third and the fifth conditional.
  \<open>llm_insights && (...)\<close> tests an object, which is truthy whenever it is present.
\<close>

definition ProfileResults :: "host \<Rightarrow> ProfileResponse \<Rightarrow> node" where
  "ProfileResults h result =
     El ''div'' ''space-y-6''
       [Header (file_name result),
        BasicStatsCards h (basic_stats result),
        QualityIssuesSection h (quality_issues result),
        ColumnAnalysisSection h (columns result),
        (case llm_insights result of None \<Rightarrow> Nothing | Some i \<Rightarrow> LLMInsightsSection h i),
        SuccessMessage]"

section \<open>The API client (lib/api.ts)\<close>

text \<open>
  A \<open>FormData\<close> is a list of named entries in the order of the \<open>append\<close> calls; an
  entry is a file or a string.
\<close>

datatype FormValue = FileValue File | StringValue string

type_synonym FormData = "(string \<times> FormValue) list"

definition append_entry :: "FormData \<Rightarrow> string \<Rightarrow> FormValue \<Rightarrow> FormData" where
  "append_entry formData key v = formData @ [(key, v)]"

record Request =
  http_method :: string
  url :: string
  headers :: "(string \<times> string) list"
  body :: FormData

text \<open>
  What happens to a request on the wire: no answer at all, with the transport's
  message, or an answer with its status code and its body as axios hands it over
  (JSON already parsed).
\<close>

datatype 'a outcome = NetworkFailure string | HttpResponse nat 'a

record 'a Response =
  status :: nat
  data :: 'a

record RequestError =
  message :: string

text \<open>\<open>process.env.NEXT_PUBLIC_API_URL || 'http://localhost:8000'\<close>\<close>

definition API_URL :: "string option \<Rightarrow> string" where
  "API_URL env =
     (case env of
        Some u \<Rightarrow> if u = [] then ''http://localhost:8000'' else u
      | None \<Rightarrow> ''http://localhost:8000'')"

text \<open>
  \<open>api.post\<close> of the axios instance: the promise resolves with the response when the
  status passes axios's default \<open>validateStatus\<close> (200 to 299) and rejects otherwise, with
  axios's message for the status; it rejects with the transport's message when there
  is no answer. A rejected promise is \<open>Inl\<close>.
\<close>

definition validateStatus :: "nat \<Rightarrow> bool" where
  "validateStatus st = (200 \<le> st \<and> st < 300)"

definition api_post ::
  "string option \<Rightarrow> (Request \<Rightarrow> 'a outcome) \<Rightarrow> string \<Rightarrow> FormData \<Rightarrow> (string \<times> string) list
     \<Rightarrow> RequestError + 'a Response" where
  "api_post env net path formData hdrs =
     (case net \<lparr>http_method = ''POST'', url = API_URL env @ ''/api/v1'' @ path,
                headers = hdrs, body = formData\<rparr> of
        NetworkFailure msg \<Rightarrow> Inl \<lparr>message = msg\<rparr>
      | HttpResponse st d \<Rightarrow>
          if validateStatus st then Inr \<lparr>status = st, data = d\<rparr>
          else Inl \<lparr>message = ''Request failed with status code '' @ dec st\<rparr>)"

text \<open>
  The form of \<open>uploadAndProfile\<close>: \<open>useLLM\<close> defaults to \<open>true\<close> when the argument is
  left out, and \<open>if (description)\<close> skips an absent description and an empty one.
\<close>

definition uploadForm :: "File \<Rightarrow> bool option \<Rightarrow> string option \<Rightarrow> FormData" where
  "uploadForm file' useLLM' description' =
     (let useLLM1 = (case useLLM' of None \<Rightarrow> True | Some b \<Rightarrow> b);
          formData0 = [];
          formData1 = append_entry formData0 ''file'' (FileValue file');
          formData2 = append_entry formData1 ''use_llm''
                        (StringValue (if useLLM1 then ''true'' else ''false''))
      in case description' of
           None \<Rightarrow> formData2
         | Some d \<Rightarrow>
             if d = [] then formData2
             else append_entry formData2 ''description'' (StringValue d))"

text \<open>\<open>await\<close> passes a rejection on to the caller; otherwise \<open>response.data\<close> is returned.\<close>

definition uploadAndProfile ::
  "string option \<Rightarrow> (Request \<Rightarrow> 'a outcome) \<Rightarrow> File \<Rightarrow> bool option \<Rightarrow> string option
     \<Rightarrow> RequestError + 'a" where
  "uploadAndProfile env net file' useLLM' description' =
     (case api_post env net ''/data/upload'' (uploadForm file' useLLM' description')
             [(''Content-Type'', ''multipart/form-data'')] of
        Inl e \<Rightarrow> Inl e
      | Inr response \<Rightarrow> Inr (data response))"

text \<open>A server for the examples, which answers every request alike.\<close>

definition always :: "'a outcome \<Rightarrow> Request \<Rightarrow> 'a outcome" where
  "always out req = out"

section \<open>The page container (app/dashboard/page.tsx)\<close>

text \<open>
  The mutation of \<open>useMutation\<close> as the page reads it: its status, and the error of a
  failed run. \<open>mutate\<close> starts a run (pending), the run settles into success, calling
  \<open>onSuccess\<close>, or into failure; \<open>reset\<close> returns to idle and drops the error.
\<close>

datatype mutation = Idle | Pending | Succeeded | Failed string

definition isPending :: "mutation \<Rightarrow> bool" where
  "isPending m = (m = Pending)"

definition error_message :: "mutation \<Rightarrow> string option" where
  "error_message m = (case m of Failed msg \<Rightarrow> Some msg | _ \<Rightarrow> None)"

text \<open>
  The state of the page: its \<open>useState\<close> cell, the mutation, and the state React keeps
  for the mounted \<open>FileUpload\<close> child (none while the child is not rendered).
\<close>

record Dashboard =
  profileResult :: "ProfileResponse option"
  uploadMutation :: mutation
  fileUpload :: "widget option"

definition initial_dashboard :: Dashboard where
  "initial_dashboard =
     \<lparr>profileResult = None, uploadMutation = Idle, fileUpload = Some initial_widget\<rparr>"

definition onSuccess :: "ProfileResponse \<Rightarrow> Dashboard \<Rightarrow> Dashboard" where
  "onSuccess d s = s\<lparr>profileResult := Some d\<rparr>"

definition handleFileUpload :: "File \<Rightarrow> bool \<Rightarrow> Dashboard \<Rightarrow> Dashboard" where
  "handleFileUpload f u s = s\<lparr>profileResult := None, uploadMutation := Pending\<rparr>"

definition handleReset :: "Dashboard \<Rightarrow> Dashboard" where
  "handleReset s = s\<lparr>profileResult := None, uploadMutation := Idle\<rparr>"

text \<open>
  What the page shows: the Results Widget when \<open>profileResult\<close> is set, otherwise the
  Upload Widget with its own state and the two props \<open>isLoading\<close> and \<open>error\<close>. A child
  rendered without kept state starts from its initial state.
\<close>

datatype view = UploadView widget bool "string option" | ResultsView ProfileResponse

definition view :: "Dashboard \<Rightarrow> view" where
  "view s =
     (case profileResult s of
        Some r \<Rightarrow> ResultsView r
      | None \<Rightarrow>
          UploadView (case fileUpload s of Some w \<Rightarrow> w | None \<Rightarrow> initial_widget)
            (isPending (uploadMutation s)) (error_message (uploadMutation s)))"

text \<open>
  React's commit after a render: the two branches of the ternary hold different
  components, so showing the results unmounts \<open>FileUpload\<close> and its state is dropped;
  showing the upload view again mounts a fresh one.
\<close>

definition commit :: "Dashboard \<Rightarrow> Dashboard" where
  "commit s =
     (case profileResult s of
        Some r \<Rightarrow> s\<lparr>fileUpload := None\<rparr>
      | None \<Rightarrow>
          s\<lparr>fileUpload := Some (case fileUpload s of Some w \<Rightarrow> w | None \<Rightarrow> initial_widget)\<rparr>)"

text \<open>
  The events of the page: an event of the mounted Upload Widget, whose \<open>onUpload\<close> calls
  go to \<open>handleFileUpload\<close>; the pending request settling, with the error message or
  the response body; a click on the reset button, which exists only in the Results
  Widget.
\<close>

datatype page_event = OnWidget event | Settled "string + ProfileResponse" | ResetClick

fun dispatch :: "page_event \<Rightarrow> Dashboard \<Rightarrow> Dashboard" where
  "dispatch (OnWidget e) s =
     (case (profileResult s, fileUpload s) of
        (None, Some w) \<Rightarrow>
          (let (w1, calls) = step (isPending (uploadMutation s)) e w
           in commit (fold (\<lambda>(f, u). handleFileUpload f u) calls (s\<lparr>fileUpload := Some w1\<rparr>)))
      | _ \<Rightarrow> s)"
| "dispatch (Settled out) s =
     (if uploadMutation s = Pending then
        commit (case out of
                  Inr d \<Rightarrow> onSuccess d (s\<lparr>uploadMutation := Succeeded\<rparr>)
                | Inl msg \<Rightarrow> s\<lparr>uploadMutation := Failed msg\<rparr>)
      else s)"
| "dispatch ResetClick s =
     (case profileResult s of Some r \<Rightarrow> commit (handleReset s) | None \<Rightarrow> s)"

inductive reachable :: "Dashboard \<Rightarrow> bool" where
  start: "reachable initial_dashboard"
| next_event: "reachable s \<Longrightarrow> reachable (dispatch e s)"

section \<open>Properties of the Upload Widget\<close>

text \<open>
  C9. No drag event touches the toggle, and only a drop may touch the selection:
  drag-over sets \<open>isDragging\<close> and nothing else, drag-leave clears it and nothing else,
  a drop changes at most \<open>isDragging\<close> and \<open>selectedFile\<close>.
\<close>

theorem drag_events_frame:
  "handleDragOver w = w\<lparr>isDragging := True\<rparr>
   \<and> selectedFile (handleDragOver w) = selectedFile w
   \<and> useLLM (handleDragOver w) = useLLM w
   \<and> handleDragLeave w = w\<lparr>isDragging := False\<rparr>
   \<and> selectedFile (handleDragLeave w) = selectedFile w
   \<and> useLLM (handleDragLeave w) = useLLM w
   \<and> handleDrop files w
       = w\<lparr>isDragging := isDragging (handleDrop files w),
           selectedFile := selectedFile (handleDrop files w)\<rparr>
   \<and> useLLM (handleDrop files w) = useLLM w
   \<and> (\<forall>e \<in> {DragOver, DragLeave, Drop files}.
         useLLM (fst (step l e w)) = useLLM w \<and> snd (step l e w) = [])"
  by (simp add: handleDragOver_def handleDragLeave_def handleDrop_def Let_def)

theorem drag_events_frame_witness:
  "useLLM (fst (step True (Drop [\<lparr>name = ''a.csv'', size_file = 3\<rparr>])
      \<lparr>selectedFile = None, useLLM = False, isDragging = True\<rparr>)) = False
   \<and> handleDragOver \<lparr>selectedFile = None, useLLM = False, isDragging = False\<rparr>
       = \<lparr>selectedFile = None, useLLM = False, isDragging = True\<rparr>"
  using drag_events_frame [of "\<lparr>selectedFile = None, useLLM = False, isDragging = False\<rparr>"
      "[\<lparr>name = ''a.csv'', size_file = 3\<rparr>]" True]
    drag_events_frame [of "\<lparr>selectedFile = None, useLLM = False, isDragging = True\<rparr>"
      "[\<lparr>name = ''a.csv'', size_file = 3\<rparr>]" True]
  by simp

text \<open>
  C7. A drop or a picker selection carrying at least one file selects exactly the first
  file, whatever follows it; a drop also clears \<open>isDragging\<close>; an event carrying no file
  (an empty list, or the picker's \<open>null\<close>) leaves the selection as it was.
\<close>

theorem first_file_selected:
  "selectedFile (handleDrop (f # rest) w) = Some f
   \<and> selectedFile (handleFileSelect (Some (f # rest)) w) = Some f
   \<and> isDragging (handleDrop files w) = False
   \<and> selectedFile (handleDrop [] w) = selectedFile w
   \<and> handleFileSelect (Some []) w = w
   \<and> handleFileSelect None w = w
   \<and> (length files \<ge> 1 \<longrightarrow>
        selectedFile (handleDrop files w) = Some (hd files)
        \<and> selectedFile (handleFileSelect (Some files) w) = Some (hd files))"
  by (cases files) (simp_all add: handleDrop_def handleFileSelect_def Let_def)

theorem first_file_selected_witness:
  "length [\<lparr>name = ''a.csv'', size_file = 3\<rparr>, \<lparr>name = ''b.csv'', size_file = 4\<rparr>] \<ge> 1
   \<and> selectedFile (handleDrop
         [\<lparr>name = ''a.csv'', size_file = 3\<rparr>, \<lparr>name = ''b.csv'', size_file = 4\<rparr>]
         \<lparr>selectedFile = Some \<lparr>name = ''old.csv'', size_file = 9\<rparr>, useLLM = True,
           isDragging = True\<rparr>)
       = Some \<lparr>name = ''a.csv'', size_file = 3\<rparr>
   \<and> selectedFile (handleFileSelect
         (Some [\<lparr>name = ''a.csv'', size_file = 3\<rparr>, \<lparr>name = ''b.csv'', size_file = 4\<rparr>])
         \<lparr>selectedFile = Some \<lparr>name = ''old.csv'', size_file = 9\<rparr>, useLLM = True,
           isDragging = True\<rparr>)
       = Some \<lparr>name = ''a.csv'', size_file = 3\<rparr>"
  using first_file_selected [of "\<lparr>name = ''a.csv'', size_file = 3\<rparr>"
      "[\<lparr>name = ''b.csv'', size_file = 4\<rparr>]"
      "\<lparr>selectedFile = Some \<lparr>name = ''old.csv'', size_file = 9\<rparr>, useLLM = True,
        isDragging = True\<rparr>"
      "[\<lparr>name = ''a.csv'', size_file = 3\<rparr>, \<lparr>name = ''b.csv'', size_file = 4\<rparr>]"]
  by simp

text \<open>
  C3. In every state of the widget (so in every reachable one) and for either value of
  the \<open>isLoading\<close> prop, the Analyze button can be actuated exactly when a file is
  selected and no request is in flight. Whatever the event, every call of the upload
  callback it causes happens with a file selected and no request in flight, and carries
  exactly the current selected file and the current toggle.
\<close>

theorem analyze_enabled_iff:
  "(enabled Analyze isLoading w \<longleftrightarrow> selectedFile w \<noteq> None \<and> \<not> isLoading)
   \<and> (\<forall>f u. (f, u) \<in> set (snd (step isLoading e w)) \<longrightarrow>
         selectedFile w = Some f \<and> useLLM w = u \<and> \<not> isLoading \<and> e = Click Analyze)
   \<and> (selectedFile w = Some f0 \<and> \<not> isLoading \<longrightarrow>
         snd (step isLoading (Click Analyze) w) = [(f0, useLLM w)])"
proof (intro conjI)
  show "enabled Analyze isLoading w \<longleftrightarrow> selectedFile w \<noteq> None \<and> \<not> isLoading"
    by (auto simp: enabled_def buttons_def split: option.splits)
  show "\<forall>f u. (f, u) \<in> set (snd (step isLoading e w)) \<longrightarrow>
         selectedFile w = Some f \<and> useLLM w = u \<and> \<not> isLoading \<and> e = Click Analyze"
  proof (cases e)
    case (Click b)
    then show ?thesis
      by (cases b)
        (auto simp: enabled_def buttons_def handleUpload_def split: option.splits if_splits)
  qed (simp_all split: option.splits)
  show "selectedFile w = Some f0 \<and> \<not> isLoading \<longrightarrow>
         snd (step isLoading (Click Analyze) w) = [(f0, useLLM w)]"
    by (auto simp: enabled_def buttons_def handleUpload_def)
qed

theorem analyze_enabled_iff_witness:
  "enabled Analyze False
      \<lparr>selectedFile = Some \<lparr>name = ''a.csv'', size_file = 3\<rparr>, useLLM = False,
        isDragging = False\<rparr>
   \<and> \<not> enabled Analyze True
      \<lparr>selectedFile = Some \<lparr>name = ''a.csv'', size_file = 3\<rparr>, useLLM = False,
        isDragging = False\<rparr>
   \<and> snd (step False (Click Analyze)
      \<lparr>selectedFile = Some \<lparr>name = ''a.csv'', size_file = 3\<rparr>, useLLM = False,
        isDragging = False\<rparr>) = [(\<lparr>name = ''a.csv'', size_file = 3\<rparr>, False)]"
  using analyze_enabled_iff [of False
      "\<lparr>selectedFile = Some \<lparr>name = ''a.csv'', size_file = 3\<rparr>, useLLM = False,
        isDragging = False\<rparr>" "Click Analyze" "\<lparr>name = ''a.csv'', size_file = 3\<rparr>"]
    analyze_enabled_iff [of True
      "\<lparr>selectedFile = Some \<lparr>name = ''a.csv'', size_file = 3\<rparr>, useLLM = False,
        isDragging = False\<rparr>" "Click Analyze" "\<lparr>name = ''a.csv'', size_file = 3\<rparr>"]
  by (simp del: step.simps)

section \<open>Properties of the severity badge\<close>

text \<open>
  C4. The badge colour is a total function of the severity string: \<open>high\<close> gives the red
  classes, \<open>medium\<close> the yellow ones, \<open>low\<close> the blue ones, and every other string, such
  as \<open>critical\<close>, gives the neutral gray default.
\<close>

theorem severity_color_total:
  "getSeverityColor ''high'' = ''bg-red-100 text-red-800 border-red-200''
   \<and> getSeverityColor ''medium'' = ''bg-yellow-100 text-yellow-800 border-yellow-200''
   \<and> getSeverityColor ''low'' = ''bg-blue-100 text-blue-800 border-blue-200''
   \<and> (s \<notin> {''high'', ''medium'', ''low''} \<longrightarrow>
        getSeverityColor s = ''bg-gray-100 text-gray-800 border-gray-200'')
   \<and> getSeverityColor ''critical'' = ''bg-gray-100 text-gray-800 border-gray-200''"
  by (simp add: getSeverityColor_def)

theorem severity_color_total_witness:
  "''HIGH'' \<notin> {''high'', ''medium'', ''low''}
   \<and> getSeverityColor ''HIGH'' = ''bg-gray-100 text-gray-800 border-gray-200''"
  using severity_color_total [of "''HIGH''"] by simp

section \<open>Properties of the number formatting\<close>

lemma floor_rat_numeral: "\<lfloor>numeral a / numeral b :: rat\<rfloor> = numeral a div numeral b"
  by (metis floor_divide_of_int_eq of_int_numeral)

lemma dec_small: "n < 10 \<Longrightarrow> dec n = [digit n]"
  by (simp add: dec.simps)

lemma dec_big: "10 \<le> n \<Longrightarrow> dec n = dec (n div 10) @ [digit (n mod 10)]"
  by (simp add: dec.simps)

lemma length_dec_pos: "0 < length (dec n)"
  by (cases "n < 10") (simp_all add: dec_small dec_big)

lemma nearest_bounds:
  assumes "0 \<le> x"
  shows "\<bar>x * 10 ^ f - of_nat (nearest f x)\<bar> \<le> 1 / 2"
proof -
  let ?z = "x * 10 ^ f + 1 / 2"
  have z0: "0 \<le> ?z" using assms by simp
  then have "0 \<le> \<lfloor>?z\<rfloor>" by simp
  then have n: "(of_nat (nearest f x) :: rat) = of_int \<lfloor>?z\<rfloor>"
    by (simp add: nearest_def)
  have "of_int \<lfloor>?z\<rfloor> \<le> ?z" and "?z < of_int \<lfloor>?z\<rfloor> + 1"
    by linarith+
  with n show ?thesis by linarith
qed

lemma point_before_last:
  "(let m = dec n;
        m1 = (if length m \<le> 1 then replicate (1 + 1 - length m) (CHR ''0'') @ m else m);
        k = length m1
    in take (k - 1) m1 @ ''.'' @ drop (k - 1) m1)
   = dec (n div 10) @ ''.'' @ [digit (n mod 10)]"
proof (cases "n < 10")
  case True
  then show ?thesis by (simp add: Let_def dec_small digit_def)
next
  case False
  have "0 < length (dec (n div 10))" by (rule length_dec_pos)
  with False show ?thesis by (simp add: Let_def dec_big)
qed

lemma toFixed_1:
  assumes "0 \<le> x" and "x < 10 ^ 21"
  shows "toFixed h 1 x = dec (nearest 1 x div 10) @ ''.'' @ [digit (nearest 1 x mod 10)]"
proof -
  have "toFixed h 1 x =
     (let m = dec (nearest 1 x);
        m1 = (if length m \<le> 1 then replicate (1 + 1 - length m) (CHR ''0'') @ m else m);
        k = length m1
      in take (k - 1) m1 @ ''.'' @ drop (k - 1) m1)"
    using assms by (simp add: toFixed_def Let_def)
  then show ?thesis by (simp only: point_before_last)
qed

lemma toFixed_shape:
  assumes "\<bar>x\<bar> < 10 ^ 21" and "0 < f"
  shows "\<exists>a b. toFixed h f x = (if x < 0 then ''-'' else []) @ a @ ''.'' @ b
           \<and> length b = f \<and> a \<noteq> []"
proof -
  define m where "m = dec (nearest f \<bar>x\<bar>)"
  define m1 where "m1 = (if length m \<le> f then replicate (f + 1 - length m) (CHR ''0'') @ m else m)"
  have len: "f < length m1" by (auto simp: m1_def)
  have "toFixed h f x = (if x < 0 then ''-'' else []) @ take (length m1 - f) m1 @ ''.'' @ drop (length m1 - f) m1"
    using assms by (simp add: toFixed_def Let_def m1_def m_def)
  moreover have "length (drop (length m1 - f) m1) = f" using len by simp
  moreover have "take (length m1 - f) m1 \<noteq> []" using len by auto
  ultimately show ?thesis by blast
qed

lemma formatFileSize_tenths:
  assumes "x = of_nat bytes / d" and "0 < d" and "x < 10 ^ 21"
  shows "\<exists>m. of_nat m / 10 - 1 / 20 \<le> x \<and> x < of_nat m / 10 + 1 / 20
           \<and> toFixed h 1 x = dec (m div 10) @ ''.'' @ [digit (m mod 10)]"
proof -
  have x0: "0 \<le> x" using assms by simp
  let ?z = "x * 10 + 1 / 2"
  have "0 \<le> ?z" using x0 by simp
  then have "0 \<le> \<lfloor>?z\<rfloor>" by simp
  then have n: "(of_nat (nearest 1 x) :: rat) = of_int \<lfloor>?z\<rfloor>"
    by (simp add: nearest_def)
  have lo: "of_int \<lfloor>?z\<rfloor> \<le> ?z" and hi: "?z < of_int \<lfloor>?z\<rfloor> + 1"
    by linarith+
  have "of_nat (nearest 1 x) / 10 - 1 / 20 \<le> x"
    unfolding n using lo by linarith
  moreover have "x < of_nat (nearest 1 x) / 10 + 1 / 20"
    unfolding n using hi by linarith
  moreover have "toFixed h 1 x = dec (nearest 1 x div 10) @ ''.'' @ [digit (nearest 1 x mod 10)]"
    using x0 assms(3) by (rule toFixed_1)
  ultimately show ?thesis by blast
qed

lemmas format_eval = formatFileSize_def toFixed_def nearest_def dec_small dec_big digit_def
  Let_def floor_rat_numeral

text \<open>
  C5. For a byte count \<open>n\<close>, \<open>formatFileSize\<close> gives the digits of \<open>n\<close> and \<open>B\<close> below
  1024; from 1024 to below 1,048,576 it gives \<open>n / 1024\<close> rounded to one decimal place
  (the tenth \<open>m / 10\<close> with \<open>m / 10 - 1/20 \<le> n / 1024 < m / 10 + 1/20\<close>) and \<open>KB\<close>; from
  1,048,576 on it gives \<open>n / 1,048,576\<close> rounded in the same way and \<open>MB\<close>. The last
  range is stated up to \<open>1,048,576 * 10^21\<close>, where \<open>toFixed\<close> leaves plain decimals; the
  size of a File is an unsigned 64-bit number, far below. In particular 0 gives
  \<open>0 B\<close>, 1536 gives \<open>1.5 KB\<close> and 1572864 gives \<open>1.5 MB\<close>, on every host.
\<close>

theorem formatFileSize_rounds:
  "(bytes < 1024 \<longrightarrow> formatFileSize h bytes = dec bytes @ '' B'')
   \<and> (1024 \<le> bytes \<and> bytes < 1048576 \<longrightarrow>
        (\<exists>m. of_nat m / 10 - 1 / 20 \<le> (of_nat bytes / 1024 :: rat)
           \<and> (of_nat bytes / 1024 :: rat) < of_nat m / 10 + 1 / 20
           \<and> formatFileSize h bytes = dec (m div 10) @ ''.'' @ [digit (m mod 10)] @ '' KB''))
   \<and> (1048576 \<le> bytes \<and> bytes < 1048576 * 10 ^ 21 \<longrightarrow>
        (\<exists>m. of_nat m / 10 - 1 / 20 \<le> (of_nat bytes / 1048576 :: rat)
           \<and> (of_nat bytes / 1048576 :: rat) < of_nat m / 10 + 1 / 20
           \<and> formatFileSize h bytes = dec (m div 10) @ ''.'' @ [digit (m mod 10)] @ '' MB''))
   \<and> formatFileSize h 0 = ''0 B''
   \<and> formatFileSize h 1536 = ''1.5 KB''
   \<and> formatFileSize h 1572864 = ''1.5 MB''"
proof (intro conjI impI)
  assume "bytes < 1024"
  then show "formatFileSize h bytes = dec bytes @ '' B''"
    by (simp add: formatFileSize_def)
next
  assume b: "1024 \<le> bytes \<and> bytes < 1048576"
  then have "(of_nat bytes / 1024 :: rat) < 1024"
    by (simp add: divide_less_eq)
  then have "(of_nat bytes / 1024 :: rat) < 10 ^ 21" by simp
  from formatFileSize_tenths [OF refl _ this, of h]
  show "\<exists>m. of_nat m / 10 - 1 / 20 \<le> (of_nat bytes / 1024 :: rat)
           \<and> (of_nat bytes / 1024 :: rat) < of_nat m / 10 + 1 / 20
           \<and> formatFileSize h bytes = dec (m div 10) @ ''.'' @ [digit (m mod 10)] @ '' KB''"
    using b by (simp add: formatFileSize_def)
next
  assume b: "1048576 \<le> bytes \<and> bytes < 1048576 * 10 ^ 21"
  then have "(of_nat bytes :: rat) < of_nat (1048576 * 10 ^ 21)"
    by (simp only: of_nat_less_iff)
  then have "(of_nat bytes / 1048576 :: rat) < 10 ^ 21"
    by (simp add: divide_less_eq)
  from formatFileSize_tenths [OF refl _ this, of h]
  show "\<exists>m. of_nat m / 10 - 1 / 20 \<le> (of_nat bytes / 1048576 :: rat)
           \<and> (of_nat bytes / 1048576 :: rat) < of_nat m / 10 + 1 / 20
           \<and> formatFileSize h bytes = dec (m div 10) @ ''.'' @ [digit (m mod 10)] @ '' MB''"
    using b by (simp add: formatFileSize_def)
next
  show "formatFileSize h 0 = ''0 B''" by (simp add: format_eval)
  show "formatFileSize h 1536 = ''1.5 KB''" by (simp add: format_eval)
  show "formatFileSize h 1572864 = ''1.5 MB''" by (simp add: format_eval)
qed

theorem formatFileSize_rounds_witness:
  "(1023::nat) < 1024 \<and> formatFileSize en_US 1023 = ''1023 B''
   \<and> (1024::nat) \<le> 1048575 \<and> (1048575::nat) < 1048576
   \<and> (\<exists>m. of_nat m / 10 - 1 / 20 \<le> (of_nat 1048575 / 1024 :: rat)
           \<and> (of_nat 1048575 / 1024 :: rat) < of_nat m / 10 + 1 / 20
           \<and> formatFileSize en_US 1048575
               = dec (m div 10) @ ''.'' @ [digit (m mod 10)] @ '' KB'')
   \<and> formatFileSize en_US 1048575 = ''1024.0 KB''
   \<and> (1048576::nat) \<le> 123456789 \<and> (123456789::nat) < 1048576 * 10 ^ 21
   \<and> (\<exists>m. of_nat m / 10 - 1 / 20 \<le> (of_nat 123456789 / 1048576 :: rat)
           \<and> (of_nat 123456789 / 1048576 :: rat) < of_nat m / 10 + 1 / 20
           \<and> formatFileSize en_US 123456789
               = dec (m div 10) @ ''.'' @ [digit (m mod 10)] @ '' MB'')
   \<and> formatFileSize en_US 123456789 = ''117.7 MB''"
proof -
  have a: "formatFileSize en_US 1023 = ''1023 B''" by (simp add: format_eval)
  have b: "formatFileSize en_US 1048575 = ''1024.0 KB''" by (simp add: format_eval)
  have c: "formatFileSize en_US 123456789 = ''117.7 MB''" by (simp add: format_eval)
  show ?thesis
    using formatFileSize_rounds [of 1023 en_US] formatFileSize_rounds [of 1048575 en_US]
      formatFileSize_rounds [of 123456789 en_US] a b c
    by simp
qed

section \<open>Properties of the Results Widget\<close>

lemma no_heading_issueCards: "\<not> list_ex (has_heading t) (map (issueCard h) xs)"
  by (induction xs) (simp_all add: issueCard_def)

lemma no_heading_columnRows: "\<not> list_ex (has_heading t) (map (columnRow h) xs)"
  by (induction xs) (simp_all add: columnRow_def statsCell_def split: option.splits)

lemma no_heading_Header: "\<not> has_heading t (Header f)"
  by (simp add: Header_def)

lemma no_heading_BasicStatsCards: "\<not> has_heading t (BasicStatsCards h bs)"
  by (simp add: BasicStatsCards_def statCard_def)

lemma no_heading_QualityIssuesSection: "\<not> has_heading t (QualityIssuesSection h xs)"
  by (simp add: QualityIssuesSection_def no_heading_issueCards)

lemma no_heading_ColumnAnalysisSection: "\<not> has_heading t (ColumnAnalysisSection h xs)"
  by (simp add: ColumnAnalysisSection_def no_heading_columnRows columnHeader_def)

lemma no_heading_SuccessMessage: "\<not> has_heading t SuccessMessage"
  by (simp add: SuccessMessage_def)

lemma no_heading_attribution: "\<not> has_heading t (attribution h i)"
  by (simp add: attribution_def split: option.splits)

lemma heading_LLMInsightsSection:
  "has_heading t (LLMInsightsSection h i) \<longleftrightarrow> t = ''AI Insights''"
  by (auto simp add: LLMInsightsSection_def no_heading_attribution)

lemmas no_heading = no_heading_Header no_heading_BasicStatsCards no_heading_QualityIssuesSection
  no_heading_ColumnAnalysisSection no_heading_SuccessMessage

text \<open>
  C6. The Results Widget renders the AI-insights panel (the one \<open>h2\<close> heading
  "AI Insights" of the page) exactly when \<open>llm_insights\<close> is present; without it the
  fifth child of the page is empty. When the panel is rendered and \<open>model_used\<close> is
  absent, the panel has no attribution paragraph (no \<open>p\<close> element at all), and the
  insight text is still there: the text of the panel is the icon, the heading and the
  insight.
\<close>

theorem insights_panel_iff:
  "(has_heading ''AI Insights'' (ProfileResults h result) \<longleftrightarrow> llm_insights result \<noteq> None)
   \<and> (llm_insights result = None \<longrightarrow>
        ProfileResults h result =
          El ''div'' ''space-y-6''
            [Header (file_name result), BasicStatsCards h (basic_stats result),
             QualityIssuesSection h (quality_issues result),
             ColumnAnalysisSection h (columns result), Nothing, SuccessMessage])
   \<and> (llm_insights result = Some i \<and> model_used i = None \<longrightarrow>
        ''p'' \<notin> set (tags (LLMInsightsSection h i))
        \<and> attribution h i = Nothing
        \<and> insights i \<in> set (texts (LLMInsightsSection h i))
        \<and> textContent (LLMInsightsSection h i) = robot @ ''AI Insights'' @ insights i
        \<and> insights i \<in> set (texts (ProfileResults h result)))"
proof (intro conjI impI)
  show "has_heading ''AI Insights'' (ProfileResults h result) \<longleftrightarrow> llm_insights result \<noteq> None"
    by (simp add: ProfileResults_def no_heading heading_LLMInsightsSection split: option.splits)
next
  assume "llm_insights result = None"
  then show "ProfileResults h result =
          El ''div'' ''space-y-6''
            [Header (file_name result), BasicStatsCards h (basic_stats result),
             QualityIssuesSection h (quality_issues result),
             ColumnAnalysisSection h (columns result), Nothing, SuccessMessage]"
    by (simp add: ProfileResults_def)
next
  assume a: "llm_insights result = Some i \<and> model_used i = None"
  then have att: "attribution h i = Nothing" by (simp add: attribution_def)
  then show "''p'' \<notin> set (tags (LLMInsightsSection h i))"
    by (simp add: LLMInsightsSection_def)
  show "attribution h i = Nothing" by (rule att)
  show "insights i \<in> set (texts (LLMInsightsSection h i))"
    by (simp add: LLMInsightsSection_def)
  show "textContent (LLMInsightsSection h i) = robot @ ''AI Insights'' @ insights i"
    using att by (simp add: LLMInsightsSection_def textContent_def)
  show "insights i \<in> set (texts (ProfileResults h result))"
    using a by (simp add: ProfileResults_def LLMInsightsSection_def)
qed

theorem insights_panel_iff_witness:
  "has_heading ''AI Insights'' (ProfileResults en_US
      \<lparr>file_name = ''a.csv'', timestamp = ''2024-01-01'',
        basic_stats = \<lparr>row_count = 120, column_count = 0, memory_usage_mb = 0,
          duplicate_rows = 0, total_nulls = 0, BasicStats.null_percentage = 0\<rparr>,
        columns = [], quality_issues = [],
        llm_insights = Some \<lparr>insights = ''ok'', model_used = None, tokens_used = None\<rparr>,
        upload_id = None, file_size_mb = None, success = True\<rparr>)
   \<and> \<not> has_heading ''AI Insights'' (ProfileResults en_US
      \<lparr>file_name = ''a.csv'', timestamp = ''2024-01-01'',
        basic_stats = \<lparr>row_count = 120, column_count = 0, memory_usage_mb = 0,
          duplicate_rows = 0, total_nulls = 0, BasicStats.null_percentage = 0\<rparr>,
        columns = [], quality_issues = [],
        llm_insights = None,
        upload_id = None, file_size_mb = None, success = True\<rparr>)
   \<and> ''p'' \<notin> set (tags (LLMInsightsSection en_US \<lparr>insights = ''ok'', model_used = None, tokens_used = None\<rparr>))
   \<and> textContent (LLMInsightsSection en_US \<lparr>insights = ''ok'', model_used = None, tokens_used = None\<rparr>) = robot @ ''AI Insightsok''"
  using insights_panel_iff [of en_US
      "\<lparr>file_name = ''a.csv'', timestamp = ''2024-01-01'',
        basic_stats = \<lparr>row_count = 120, column_count = 0, memory_usage_mb = 0,
          duplicate_rows = 0, total_nulls = 0, BasicStats.null_percentage = 0\<rparr>,
        columns = [], quality_issues = [],
        llm_insights = Some \<lparr>insights = ''ok'', model_used = None, tokens_used = None\<rparr>,
        upload_id = None, file_size_mb = None, success = True\<rparr>"
      "\<lparr>insights = ''ok'', model_used = None, tokens_used = None\<rparr>"]
    insights_panel_iff [of en_US
      "\<lparr>file_name = ''a.csv'', timestamp = ''2024-01-01'',
        basic_stats = \<lparr>row_count = 120, column_count = 0, memory_usage_mb = 0,
          duplicate_rows = 0, total_nulls = 0, BasicStats.null_percentage = 0\<rparr>,
        columns = [], quality_issues = [],
        llm_insights = None,
        upload_id = None, file_size_mb = None, success = True\<rparr>"
      "\<lparr>insights = ''ok'', model_used = None, tokens_used = None\<rparr>"]
  by (simp add: no_heading)

text \<open>
  C10, as amended. When \<open>llm_insights\<close> is present with a non-empty \<open>model_used\<close> and no
  \<open>tokens_used\<close>, the attribution paragraph is rendered; it holds the model name, the
  separator and the word "tokens" with nothing in the place of the number. The
  paragraph is guarded by the truthiness of \<open>model_used\<close>: for every host, insight text
  and token count, a model name that is defined but empty renders the empty string in
  place of the paragraph, so the panel has no \<open>p\<close> element and the attribution
  contributes no text.
\<close>

theorem attribution_without_tokens:
  "(model_used i = Some m \<and> m \<noteq> [] \<and> tokens_used i = None \<longrightarrow>
      attribution h i =
        El ''p'' ''text-sm text-gray-600''
          [Text ''Powered by '', Text m, Text ('' '' @ bullet @ '' ''), Nothing,
           Text '' tokens'']
      \<and> texts (attribution h i) = [''Powered by '', m, '' '' @ bullet @ '' '', '' tokens'']
      \<and> textContent (attribution h i) = ''Powered by '' @ m @ '' '' @ bullet @ ''  tokens''
      \<and> ''p'' \<in> set (tags (LLMInsightsSection h i)))
   \<and> (model_used i = Some [] \<longrightarrow>
      attribution h i = Text []
      \<and> textContent (attribution h i) = []
      \<and> ''p'' \<notin> set (tags (attribution h i))
      \<and> ''p'' \<notin> set (tags (LLMInsightsSection h i))
      \<and> textContent (LLMInsightsSection h i) = robot @ ''AI Insights'' @ insights i)"
proof (intro conjI impI)
  assume a: "model_used i = Some m \<and> m \<noteq> [] \<and> tokens_used i = None"
  then show "attribution h i =
        El ''p'' ''text-sm text-gray-600''
          [Text ''Powered by '', Text m, Text ('' '' @ bullet @ '' ''), Nothing,
           Text '' tokens'']"
    by (simp add: attribution_def)
  then show "texts (attribution h i) = [''Powered by '', m, '' '' @ bullet @ '' '', '' tokens'']"
    by simp
  then show "textContent (attribution h i)
      = ''Powered by '' @ m @ '' '' @ bullet @ ''  tokens''"
    by (simp add: textContent_def)
  from a show "''p'' \<in> set (tags (LLMInsightsSection h i))"
    by (simp add: attribution_def LLMInsightsSection_def)
next
  assume e: "model_used i = Some []"
  then show att: "attribution h i = Text []"
    by (simp add: attribution_def)
  then show "textContent (attribution h i) = []"
    by (simp add: textContent_def)
  from att show "''p'' \<notin> set (tags (attribution h i))"
    by simp
  from att show "''p'' \<notin> set (tags (LLMInsightsSection h i))"
    by (simp add: LLMInsightsSection_def)
  from att show "textContent (LLMInsightsSection h i) = robot @ ''AI Insights'' @ insights i"
    by (simp add: LLMInsightsSection_def textContent_def)
qed

theorem attribution_without_tokens_witness:
  "textContent (attribution en_US
      \<lparr>insights = ''ok'', model_used = Some ''claude-x'', tokens_used = None\<rparr>)
     = ''Powered by claude-x '' @ bullet @ ''  tokens''
   \<and> ''p'' \<in> set (tags (LLMInsightsSection en_US
      \<lparr>insights = ''ok'', model_used = Some ''claude-x'', tokens_used = None\<rparr>))
   \<and> model_used \<lparr>insights = ''two lines'', model_used = Some [], tokens_used = Some 1234\<rparr>
       = Some []
   \<and> attribution en_US
      \<lparr>insights = ''two lines'', model_used = Some [], tokens_used = Some 1234\<rparr> = Text []
   \<and> ''p'' \<notin> set (tags (LLMInsightsSection en_US
      \<lparr>insights = ''two lines'', model_used = Some [], tokens_used = Some 1234\<rparr>))"
  using attribution_without_tokens [of
      "\<lparr>insights = ''ok'', model_used = Some ''claude-x'', tokens_used = None\<rparr>"
      "''claude-x''" en_US]
    attribution_without_tokens [of
      "\<lparr>insights = ''two lines'', model_used = Some [], tokens_used = Some 1234\<rparr>"
      "''claude-x''" en_US]
  by (simp add: textContent_def)

text \<open>
  C10 as stated fails for a model name that is defined and empty: no attribution
  paragraph is rendered.
\<close>

theorem attribution_empty_model_counterexample:
  "model_used \<lparr>insights = ''ok'', model_used = Some [], tokens_used = None\<rparr> \<noteq> None
   \<and> tokens_used \<lparr>insights = ''ok'', model_used = Some [], tokens_used = None\<rparr> = None
   \<and> attribution en_US \<lparr>insights = ''ok'', model_used = Some [], tokens_used = None\<rparr> = Text []
   \<and> ''p'' \<notin> set (tags (LLMInsightsSection en_US \<lparr>insights = ''ok'', model_used = Some [], tokens_used = None\<rparr>))
   \<and> textContent (LLMInsightsSection en_US \<lparr>insights = ''ok'', model_used = Some [], tokens_used = None\<rparr>) = robot @ ''AI Insightsok''"
  by (simp add: attribution_def LLMInsightsSection_def textContent_def)

text \<open>
  C1, as amended. The stats cell holds two independent spans, in this order: the mean
  with two decimals when \<open>mean\<close> is present, and the average length with no decimals
  when \<open>avg_length\<close> is present. With only one of the fields the cell shows that one,
  with neither it shows nothing, and with both it shows both, the mean first. Below
  \<open>10^21\<close> in magnitude the mean's text has exactly two digits after its point and the
  average length's text has no point.
\<close>

theorem statsCell_both_spans:
  "texts (statsCell h col) =
     (case mean col of Some m \<Rightarrow> [mu @ '': '', toFixed h 2 m] | None \<Rightarrow> [])
     @ (case avg_length col of Some a \<Rightarrow> [''avg len: '', toFixed h 0 a] | None \<Rightarrow> [])
   \<and> (mean col = Some m \<and> avg_length col = None \<longrightarrow>
        textContent (statsCell h col) = mu @ '': '' @ toFixed h 2 m)
   \<and> (mean col = None \<and> avg_length col = Some a \<longrightarrow>
        textContent (statsCell h col) = ''avg len: '' @ toFixed h 0 a)
   \<and> (mean col = None \<and> avg_length col = None \<longrightarrow> textContent (statsCell h col) = [])
   \<and> (mean col = Some m \<and> avg_length col = Some a \<longrightarrow>
        textContent (statsCell h col)
          = mu @ '': '' @ toFixed h 2 m @ ''avg len: '' @ toFixed h 0 a)
   \<and> (\<bar>m\<bar> < 10 ^ 21 \<longrightarrow>
        (\<exists>w d. toFixed h 2 m = (if m < 0 then ''-'' else []) @ w @ ''.'' @ d
           \<and> length d = 2 \<and> w \<noteq> []))
   \<and> (\<bar>a\<bar> < 10 ^ 21 \<longrightarrow>
        toFixed h 0 a = (if a < 0 then ''-'' else []) @ dec (nearest 0 \<bar>a\<bar>))"
proof (intro conjI impI)
  show "texts (statsCell h col) =
     (case mean col of Some m \<Rightarrow> [mu @ '': '', toFixed h 2 m] | None \<Rightarrow> [])
     @ (case avg_length col of Some a \<Rightarrow> [''avg len: '', toFixed h 0 a] | None \<Rightarrow> [])"
    by (simp add: statsCell_def split: option.splits)
next
  assume "\<bar>m\<bar> < 10 ^ 21"
  from toFixed_shape [OF this, of 2 h]
  show "\<exists>w d. toFixed h 2 m = (if m < 0 then ''-'' else []) @ w @ ''.'' @ d
           \<and> length d = 2 \<and> w \<noteq> []"
    by simp
next
  assume "\<bar>a\<bar> < 10 ^ 21"
  then show "toFixed h 0 a = (if a < 0 then ''-'' else []) @ dec (nearest 0 \<bar>a\<bar>)"
    by (simp add: toFixed_def Let_def)
qed (simp_all add: statsCell_def textContent_def)

theorem statsCell_both_spans_witness:
  "textContent (statsCell en_US
      \<lparr>ColumnAnalysis.name = ''c'', dtype = ''float64'', null_count = 0,
        null_percentage = 0, unique_count = 2, unique_percentage = 100, min_num = None,
        max_num = None, mean = Some (3 / 2), median = None, std = None, avg_length = None,
        max_length = None, min_length = None, sample_values = None, min_date = None,
        max_date = None\<rparr>) = mu @ '': 1.50''
   \<and> textContent (statsCell en_US
      \<lparr>ColumnAnalysis.name = ''c'', dtype = ''float64'', null_count = 0,
        null_percentage = 0, unique_count = 2, unique_percentage = 100, min_num = None,
        max_num = None, mean = None, median = None, std = None, avg_length = Some (7 / 2),
        max_length = None, min_length = None, sample_values = None, min_date = None,
        max_date = None\<rparr>) = ''avg len: 4''
   \<and> textContent (statsCell en_US
      \<lparr>ColumnAnalysis.name = ''c'', dtype = ''float64'', null_count = 0,
        null_percentage = 0, unique_count = 2, unique_percentage = 100, min_num = None,
        max_num = None, mean = Some (3 / 2), median = None, std = None, avg_length = Some (7 / 2),
        max_length = None, min_length = None, sample_values = None, min_date = None,
        max_date = None\<rparr>) = mu @ '': 1.50avg len: 4''
   \<and> textContent (statsCell en_US
      \<lparr>ColumnAnalysis.name = ''c'', dtype = ''float64'', null_count = 0,
        null_percentage = 0, unique_count = 2, unique_percentage = 100, min_num = None,
        max_num = None, mean = None, median = None, std = None, avg_length = None,
        max_length = None, min_length = None, sample_values = None, min_date = None,
        max_date = None\<rparr>) = []
   \<and> (\<bar>3 / 2 :: rat\<bar> < 10 ^ 21 \<and> toFixed en_US 2 (3 / 2) = ''1.50'')
   \<and> (\<bar>7 / 2 :: rat\<bar> < 10 ^ 21 \<and> toFixed en_US 0 (7 / 2) = ''4'')"
  using statsCell_both_spans [of en_US
      "\<lparr>ColumnAnalysis.name = ''c'', dtype = ''float64'', null_count = 0,
        null_percentage = 0, unique_count = 2, unique_percentage = 100, min_num = None,
        max_num = None, mean = Some (3 / 2), median = None, std = None, avg_length = None,
        max_length = None, min_length = None, sample_values = None, min_date = None,
        max_date = None\<rparr>" "3 / 2" "7 / 2"]
    statsCell_both_spans [of en_US
      "\<lparr>ColumnAnalysis.name = ''c'', dtype = ''float64'', null_count = 0,
        null_percentage = 0, unique_count = 2, unique_percentage = 100, min_num = None,
        max_num = None, mean = None, median = None, std = None, avg_length = Some (7 / 2),
        max_length = None, min_length = None, sample_values = None, min_date = None,
        max_date = None\<rparr>" "3 / 2" "7 / 2"]
    statsCell_both_spans [of en_US
      "\<lparr>ColumnAnalysis.name = ''c'', dtype = ''float64'', null_count = 0,
        null_percentage = 0, unique_count = 2, unique_percentage = 100, min_num = None,
        max_num = None, mean = Some (3 / 2), median = None, std = None, avg_length = Some (7 / 2),
        max_length = None, min_length = None, sample_values = None, min_date = None,
        max_date = None\<rparr>" "3 / 2" "7 / 2"]
    statsCell_both_spans [of en_US
      "\<lparr>ColumnAnalysis.name = ''c'', dtype = ''float64'', null_count = 0,
        null_percentage = 0, unique_count = 2, unique_percentage = 100, min_num = None,
        max_num = None, mean = None, median = None, std = None, avg_length = None,
        max_length = None, min_length = None, sample_values = None, min_date = None,
        max_date = None\<rparr>" "3 / 2" "7 / 2"]
  by (simp add: format_eval)

text \<open>
  C1 as stated fails for a column with both fields: the cell shows the average length
  after the mean, not the mean alone.
\<close>

theorem statsCell_only_mean_counterexample:
  "mean \<lparr>ColumnAnalysis.name = ''c'', dtype = ''float64'', null_count = 0,
        null_percentage = 0, unique_count = 2, unique_percentage = 100, min_num = None,
        max_num = None, mean = Some (3 / 2), median = None, std = None, avg_length = Some 3,
        max_length = None, min_length = None, sample_values = None, min_date = None,
        max_date = None\<rparr> \<noteq> None
   \<and> avg_length \<lparr>ColumnAnalysis.name = ''c'', dtype = ''float64'', null_count = 0,
        null_percentage = 0, unique_count = 2, unique_percentage = 100, min_num = None,
        max_num = None, mean = Some (3 / 2), median = None, std = None, avg_length = Some 3,
        max_length = None, min_length = None, sample_values = None, min_date = None,
        max_date = None\<rparr> \<noteq> None
   \<and> textContent (statsCell en_US
      \<lparr>ColumnAnalysis.name = ''c'', dtype = ''float64'', null_count = 0,
        null_percentage = 0, unique_count = 2, unique_percentage = 100, min_num = None,
        max_num = None, mean = Some (3 / 2), median = None, std = None, avg_length = Some 3,
        max_length = None, min_length = None, sample_values = None, min_date = None,
        max_date = None\<rparr>) = mu @ '': 1.50avg len: 3''
   \<and> textContent (statsCell en_US
      \<lparr>ColumnAnalysis.name = ''c'', dtype = ''float64'', null_count = 0,
        null_percentage = 0, unique_count = 2, unique_percentage = 100, min_num = None,
        max_num = None, mean = Some (3 / 2), median = None, std = None, avg_length = Some 3,
        max_length = None, min_length = None, sample_values = None, min_date = None,
        max_date = None\<rparr>) \<noteq> mu @ '': 1.50''"
proof -
  have a: "toFixed en_US 2 (3 / 2) = ''1.50''" by (simp add: format_eval)
  have b: "toFixed en_US 0 3 = ''3''" by (simp add: format_eval)
  show ?thesis by (simp add: statsCell_def textContent_def a b)
qed

section \<open>Properties of the API client and of the page container\<close>

lemma uploadForm_entries:
  "uploadForm f useLLM' description'
     = [(''file'', FileValue f),
        (''use_llm'', StringValue (if useLLM' = Some False then ''false'' else ''true''))]
       @ (case description' of
            None \<Rightarrow> []
          | Some d \<Rightarrow> if d = [] then [] else [(''description'', StringValue d)])"
  by (simp add: uploadForm_def append_entry_def Let_def split: option.splits)

text \<open>
  C2. For every file, flag and optional description, the form of \<open>uploadAndProfile\<close> has
  the entry \<open>file\<close> with the file, then \<open>use_llm\<close> with \<open>true\<close> or \<open>false\<close> as the flag says
  (\<open>true\<close> when the flag is left out), and an entry \<open>description\<close> only when a description
  is given (and then it is that description, which is not empty). On an answer with a
  2xx status the call returns the body of the answer; on any other status it fails
  with the message for that status, and without an answer it fails with the
  transport's message; in neither case does it return a result.
\<close>

theorem uploadAndProfile_contract:
  "uploadForm f None description' = uploadForm f (Some True) description'
   \<and> uploadForm f (Some u) description'
     = [(''file'', FileValue f), (''use_llm'', StringValue (if u then ''true'' else ''false''))]
       @ (case description' of
            None \<Rightarrow> []
          | Some d \<Rightarrow> if d = [] then [] else [(''description'', StringValue d)])
   \<and> (''description'' \<in> fst ` set (uploadForm f (Some u) description') \<longrightarrow>
        (\<exists>d. description' = Some d \<and> d \<noteq> []
            \<and> (''description'', StringValue d) \<in> set (uploadForm f (Some u) description')))
   \<and> (\<forall>st d. net \<lparr>http_method = ''POST'', url = API_URL env @ ''/api/v1/data/upload'',
                   headers = [(''Content-Type'', ''multipart/form-data'')],
                   body = uploadForm f (Some u) description'\<rparr> = HttpResponse st d
          \<longrightarrow> (200 \<le> st \<and> st < 300 \<longrightarrow>
                 uploadAndProfile env net f (Some u) description' = Inr d)
            \<and> (\<not> (200 \<le> st \<and> st < 300) \<longrightarrow>
                 uploadAndProfile env net f (Some u) description'
                   = Inl \<lparr>message = ''Request failed with status code '' @ dec st\<rparr>))
   \<and> (\<forall>msg. net \<lparr>http_method = ''POST'', url = API_URL env @ ''/api/v1/data/upload'',
                   headers = [(''Content-Type'', ''multipart/form-data'')],
                   body = uploadForm f (Some u) description'\<rparr> = NetworkFailure msg
          \<longrightarrow> uploadAndProfile env net f (Some u) description' = Inl \<lparr>message = msg\<rparr>)"
proof (intro conjI allI impI)
  show "uploadForm f None description' = uploadForm f (Some True) description'"
    by (simp add: uploadForm_entries)
next
  show "uploadForm f (Some u) description'
     = [(''file'', FileValue f), (''use_llm'', StringValue (if u then ''true'' else ''false''))]
       @ (case description' of
            None \<Rightarrow> []
          | Some d \<Rightarrow> if d = [] then [] else [(''description'', StringValue d)])"
    by (simp add: uploadForm_entries)
next
  assume "''description'' \<in> fst ` set (uploadForm f (Some u) description')"
  then show "\<exists>d. description' = Some d \<and> d \<noteq> []
            \<and> (''description'', StringValue d) \<in> set (uploadForm f (Some u) description')"
    by (auto simp: uploadForm_entries split: option.splits if_splits)
next
  fix st d
  assume "net \<lparr>http_method = ''POST'', url = API_URL env @ ''/api/v1/data/upload'',
                   headers = [(''Content-Type'', ''multipart/form-data'')],
                   body = uploadForm f (Some u) description'\<rparr> = HttpResponse st d"
    and "200 \<le> st \<and> st < 300"
  then show "uploadAndProfile env net f (Some u) description' = Inr d"
    by (simp add: uploadAndProfile_def api_post_def validateStatus_def)
next
  fix st d
  assume "net \<lparr>http_method = ''POST'', url = API_URL env @ ''/api/v1/data/upload'',
                   headers = [(''Content-Type'', ''multipart/form-data'')],
                   body = uploadForm f (Some u) description'\<rparr> = HttpResponse st d"
    and "\<not> (200 \<le> st \<and> st < 300)"
  then show "uploadAndProfile env net f (Some u) description'
                   = Inl \<lparr>message = ''Request failed with status code '' @ dec st\<rparr>"
    by (simp add: uploadAndProfile_def api_post_def validateStatus_def)
next
  fix msg
  assume "net \<lparr>http_method = ''POST'', url = API_URL env @ ''/api/v1/data/upload'',
                   headers = [(''Content-Type'', ''multipart/form-data'')],
                   body = uploadForm f (Some u) description'\<rparr> = NetworkFailure msg"
  then show "uploadAndProfile env net f (Some u) description' = Inl \<lparr>message = msg\<rparr>"
    by (simp add: uploadAndProfile_def api_post_def)
qed

theorem uploadAndProfile_contract_witness:
  "uploadForm \<lparr>name = ''a.csv'', size_file = 3\<rparr> (Some False) (Some ''sales'')
     = [(''file'', FileValue \<lparr>name = ''a.csv'', size_file = 3\<rparr>),
        (''use_llm'', StringValue ''false''), (''description'', StringValue ''sales'')]
   \<and> uploadAndProfile None (always (HttpResponse 200 ''body''))
        \<lparr>name = ''a.csv'', size_file = 3\<rparr> (Some False) (Some ''sales'') = Inr ''body''
   \<and> uploadAndProfile None (always (HttpResponse 500 ''body''))
        \<lparr>name = ''a.csv'', size_file = 3\<rparr> (Some False) (Some ''sales'')
        = Inl \<lparr>message = ''Request failed with status code 500''\<rparr>
   \<and> uploadAndProfile None (always (NetworkFailure ''Network Error'' :: string outcome))
        \<lparr>name = ''a.csv'', size_file = 3\<rparr> (Some False) (Some ''sales'')
        = Inl \<lparr>message = ''Network Error''\<rparr>"
  using uploadAndProfile_contract [where f = "\<lparr>name = ''a.csv'', size_file = 3\<rparr>" and u = False
      and description' = "Some ''sales''" and env = None
      and net = "always (HttpResponse 200 ''body'')"]
    uploadAndProfile_contract [where f = "\<lparr>name = ''a.csv'', size_file = 3\<rparr>" and u = False
      and description' = "Some ''sales''" and env = None
      and net = "always (HttpResponse 500 ''body'')"]
    uploadAndProfile_contract [where f = "\<lparr>name = ''a.csv'', size_file = 3\<rparr>" and u = False
      and description' = "Some ''sales''" and env = None
      and net = "always (NetworkFailure ''Network Error'' :: string outcome)"]
  by (simp add: always_def dec_small dec_big digit_def)

lemma commit_unmounts: "profileResult (commit s) \<noteq> None \<Longrightarrow> fileUpload (commit s) = None"
  by (auto simp: commit_def split: option.splits)

lemma dispatch_unmounts:
  assumes "profileResult s \<noteq> None \<longrightarrow> fileUpload s = None"
  shows "profileResult (dispatch e s) \<noteq> None \<longrightarrow> fileUpload (dispatch e s) = None"
proof (cases e)
  case (OnWidget x)
  then show ?thesis using assms commit_unmounts
    by (auto split: option.splits prod.splits)
next
  case (Settled out)
  then show ?thesis using assms commit_unmounts by auto
next
  case ResetClick
  then show ?thesis using assms commit_unmounts by (auto split: option.splits)
qed

lemma reachable_unmounts:
  "reachable s \<Longrightarrow> profileResult s \<noteq> None \<longrightarrow> fileUpload s = None"
proof (induction rule: reachable.induct)
  case start
  then show ?case by (simp add: initial_dashboard_def)
next
  case (next_event s e)
  from next_event.IH show ?case by (rule dispatch_unmounts)
qed

lemma reset_gives_initial:
  assumes "profileResult s = Some r" and "fileUpload s = None"
  shows "dispatch ResetClick s = initial_dashboard"
  using assms by (simp add: handleReset_def commit_def initial_dashboard_def)

text \<open>
  C8. Both \<open>handleReset\<close> and \<open>handleFileUpload\<close> set \<open>profileResult\<close> to none. In every
  reachable state of the page that shows a result, the reset click gives back the
  initial state of the page: the Upload Widget with no selected file, not loading, and
  no error. So it is after a request settles with a result and the user resets.
\<close>

theorem reset_clears_everything:
  "profileResult (handleReset s) = None
   \<and> profileResult (handleFileUpload f u s) = None
   \<and> (reachable s \<and> profileResult s \<noteq> None \<longrightarrow>
        dispatch ResetClick s = initial_dashboard
        \<and> view (dispatch ResetClick s) = UploadView initial_widget False None)
   \<and> (reachable s \<and> uploadMutation s = Pending \<longrightarrow>
        view (dispatch (Settled (Inr r)) s) = ResultsView r
        \<and> view (dispatch ResetClick (dispatch (Settled (Inr r)) s))
            = UploadView initial_widget False None)
   \<and> view initial_dashboard = UploadView initial_widget False None"
proof (intro conjI impI)
  show "profileResult (handleReset s) = None" by (simp add: handleReset_def)
  show "profileResult (handleFileUpload f u s) = None" by (simp add: handleFileUpload_def)
  show v0: "view initial_dashboard = UploadView initial_widget False None"
    by (simp add: view_def initial_dashboard_def isPending_def error_message_def)
  {
    assume a: "reachable s \<and> profileResult s \<noteq> None"
    then obtain r0 where r0: "profileResult s = Some r0" by auto
    from a have "fileUpload s = None" using reachable_unmounts by blast
    with r0 show "dispatch ResetClick s = initial_dashboard" by (rule reset_gives_initial)
    then show "view (dispatch ResetClick s) = UploadView initial_widget False None"
      using v0 by simp
  }
  {
    assume a: "reachable s \<and> uploadMutation s = Pending"
    let ?t = "dispatch (Settled (Inr r)) s"
    from a have p: "profileResult ?t = Some r"
      by (simp add: onSuccess_def commit_def)
    then show "view ?t = ResultsView r" by (simp add: view_def)
    from a have "reachable ?t" by (blast intro: reachable.next_event)
    with p have "fileUpload ?t = None" using reachable_unmounts by blast
    with p have "dispatch ResetClick ?t = initial_dashboard" by (rule reset_gives_initial)
    then show "view (dispatch ResetClick ?t) = UploadView initial_widget False None"
      using v0 by simp
  }
qed

lemma example_run:
  "dispatch (OnWidget (Click Analyze))
     (dispatch (OnWidget (Drop [\<lparr>name = ''a.csv'', size_file = 3\<rparr>])) initial_dashboard)
   = \<lparr>profileResult = None, uploadMutation = Pending,
      fileUpload = Some \<lparr>selectedFile = Some \<lparr>name = ''a.csv'', size_file = 3\<rparr>,
        useLLM = True, isDragging = False\<rparr>\<rparr>"
  by (simp add: initial_dashboard_def initial_widget_def handleDrop_def isPending_def
      enabled_def buttons_def handleUpload_def handleFileUpload_def commit_def Let_def)

theorem reset_clears_everything_witness:
  "reachable \<lparr>profileResult = None, uploadMutation = Pending,
      fileUpload = Some \<lparr>selectedFile = Some \<lparr>name = ''a.csv'', size_file = 3\<rparr>,
        useLLM = True, isDragging = False\<rparr>\<rparr>
   \<and> view (dispatch (Settled (Inr
      \<lparr>file_name = ''a.csv'', timestamp = ''2024-01-01'',
        basic_stats = \<lparr>row_count = 120, column_count = 0, memory_usage_mb = 0,
          duplicate_rows = 0, total_nulls = 0, BasicStats.null_percentage = 0\<rparr>,
        columns = [], quality_issues = [], llm_insights = None,
        upload_id = None, file_size_mb = None, success = True\<rparr>))
        \<lparr>profileResult = None, uploadMutation = Pending,
      fileUpload = Some \<lparr>selectedFile = Some \<lparr>name = ''a.csv'', size_file = 3\<rparr>,
        useLLM = True, isDragging = False\<rparr>\<rparr>)
      = ResultsView
      \<lparr>file_name = ''a.csv'', timestamp = ''2024-01-01'',
        basic_stats = \<lparr>row_count = 120, column_count = 0, memory_usage_mb = 0,
          duplicate_rows = 0, total_nulls = 0, BasicStats.null_percentage = 0\<rparr>,
        columns = [], quality_issues = [], llm_insights = None,
        upload_id = None, file_size_mb = None, success = True\<rparr>
   \<and> view (dispatch ResetClick (dispatch (Settled (Inr
      \<lparr>file_name = ''a.csv'', timestamp = ''2024-01-01'',
        basic_stats = \<lparr>row_count = 120, column_count = 0, memory_usage_mb = 0,
          duplicate_rows = 0, total_nulls = 0, BasicStats.null_percentage = 0\<rparr>,
        columns = [], quality_issues = [], llm_insights = None,
        upload_id = None, file_size_mb = None, success = True\<rparr>))
        \<lparr>profileResult = None, uploadMutation = Pending,
      fileUpload = Some \<lparr>selectedFile = Some \<lparr>name = ''a.csv'', size_file = 3\<rparr>,
        useLLM = True, isDragging = False\<rparr>\<rparr>))
      = UploadView \<lparr>selectedFile = None, useLLM = True, isDragging = False\<rparr> False None"
proof -
  have r: "reachable \<lparr>profileResult = None, uploadMutation = Pending,
      fileUpload = Some \<lparr>selectedFile = Some \<lparr>name = ''a.csv'', size_file = 3\<rparr>,
        useLLM = True, isDragging = False\<rparr>\<rparr>"
    using reachable.next_event [OF reachable.next_event [OF reachable.start],
        of "OnWidget (Click Analyze)" "OnWidget (Drop [\<lparr>name = ''a.csv'', size_file = 3\<rparr>])"]
    by (simp only: example_run)
  show ?thesis
    using r reset_clears_everything [of
        "\<lparr>profileResult = None, uploadMutation = Pending,
      fileUpload = Some \<lparr>selectedFile = Some \<lparr>name = ''a.csv'', size_file = 3\<rparr>,
        useLLM = True, isDragging = False\<rparr>\<rparr>" "\<lparr>name = ''a.csv'', size_file = 3\<rparr>" True
        "\<lparr>file_name = ''a.csv'', timestamp = ''2024-01-01'',
        basic_stats = \<lparr>row_count = 120, column_count = 0, memory_usage_mb = 0,
          duplicate_rows = 0, total_nulls = 0, BasicStats.null_percentage = 0\<rparr>,
        columns = [], quality_issues = [], llm_insights = None,
        upload_id = None, file_size_mb = None, success = True\<rparr>"]
    by (simp add: initial_widget_def del: dispatch.simps)
qed

end
